theory Spec2Isabelle
  imports Main
begin

section \<open>Strings as the parser module sees them\<close>

text \<open>
  A JavaScript string is modelled as a \<^typ>\<open>string\<close>: a list of code units, here those
  below 256. The regular-expression classes of the source are the predicates below:
  \<^verbatim>\<open>\s\<close> is \<open>isSpace\<close> (tab, line feed, vertical tab, form feed, carriage return, space
  and the no-break space, the white space of that range), \<^verbatim>\<open>\w\<close> is \<open>isWordChar\<close>,
  and \<^verbatim>\<open>.\<close> excludes the line terminators.
\<close>

definition isSpace :: "char \<Rightarrow> bool" where
  "isSpace c = (c \<in> set [CHR 0x09, CHR 0x0A, CHR 0x0B, CHR 0x0C, CHR 0x0D, CHR 0x20, CHR 0xA0])"

definition isWordChar :: "char \<Rightarrow> bool" where
  "isWordChar c =
     (c \<in> set ''abcdefghijklmnopqrstuvwxyzABCDEFGHIJKLMNOPQRSTUVWXYZ0123456789_'')"

definition isQuote :: "char \<Rightarrow> bool" where
  "isQuote c = (c = CHR 0x27 \<or> c = CHR 0x22)"

definition isLineTerminator :: "char \<Rightarrow> bool" where
  "isLineTerminator c = (c = CHR 0x0A \<or> c = CHR 0x0D)"

text \<open>\<^verbatim>\<open>String.prototype.trim\<close>: white space is removed at both ends.\<close>

definition trim :: "string \<Rightarrow> string" where
  "trim s = rev (dropWhile isSpace (rev (dropWhile isSpace s)))"

text \<open>\<^verbatim>\<open>input.split('\n')[0]\<close>: the text before the first line feed.\<close>

definition firstLine :: "string \<Rightarrow> string" where
  "firstLine s = takeWhile (\<lambda>c. c \<noteq> CHR 0x0A) s"

text \<open>\<^verbatim>\<open>parts.join(' ')\<close>.\<close>

fun joinSpace :: "string list \<Rightarrow> string" where
  "joinSpace [] = []"
| "joinSpace [x] = x"
| "joinSpace (x # y # ys) = x @ CHR 0x20 # joinSpace (y # ys)"

text \<open>An optional single character of a class: \<^verbatim>\<open>-?\<close> and \<^verbatim>\<open>['"]?\<close>.\<close>

fun dropOptional :: "(char \<Rightarrow> bool) \<Rightarrow> string \<Rightarrow> string" where
  "dropOptional p [] = []"
| "dropOptional p (c # cs) = (if p c then cs else c # cs)"

fun stripPrefix :: "string \<Rightarrow> string \<Rightarrow> string option" where
  "stripPrefix [] s = Some s"
| "stripPrefix (p # ps) [] = None"
| "stripPrefix (p # ps) (c # cs) = (if p = c then stripPrefix ps cs else None)"

subsection \<open>The heredoc expressions\<close>

text \<open>
  The shared prefix \<^verbatim>\<open><<-?\s*['"]?\w+\<close> of the heredoc expressions, matched at the start
  of the text. Each quantifier is followed by an item that cannot start with a character
  of its own class, so the greedy choice is the only one that can succeed. The result is
  the captured marker and the text after it.
\<close>

definition heredocOperator :: "string \<Rightarrow> (string \<times> string) option" where
  "heredocOperator s =
     (case stripPrefix ''<<'' s of
        None \<Rightarrow> None
      | Some r \<Rightarrow>
          (let r1 = dropOptional (\<lambda>c. c = CHR ''-'') r;
               r2 = dropWhile isSpace r1;
               r3 = dropOptional isQuote r2;
               marker = takeWhile isWordChar r3
           in if marker = [] then None else Some (marker, dropWhile isWordChar r3)))"

text \<open>\<^verbatim>\<open>HEREDOC_REGEX.test(input)\<close>, with \<^verbatim>\<open>HEREDOC_REGEX = /<<-?\s*['"]?\w+['"]?/\<close>.\<close>

fun heredocRegexTest :: "string \<Rightarrow> bool" where
  "heredocRegexTest [] = False"
| "heredocRegexTest (c # cs) =
     (heredocOperator (c # cs) \<noteq> None \<or> heredocRegexTest cs)"

text \<open>
  \<^verbatim>\<open>firstLine.replace(/<<-?\s*['"]?\w+['"]?.*$/, '')\<close>: the leftmost match is removed, and
  a match runs to the end of the text, which \<^verbatim>\<open>.*$\<close> reaches only over characters that
  are not line terminators.
\<close>

fun stripHeredocSuffix :: "string \<Rightarrow> string" where
  "stripHeredocSuffix [] = []"
| "stripHeredocSuffix (c # cs) =
     (case heredocOperator (c # cs) of
        Some (marker, rest) \<Rightarrow>
          if \<not> list_ex isLineTerminator rest then [] else c # stripHeredocSuffix cs
      | None \<Rightarrow> c # stripHeredocSuffix cs)"

text \<open>
  The closing line of the cat-heredoc idiom, \<^verbatim>\<open>\n\1\s*\)\<close>, matched at the start of the
  text; the result is the text after the parenthesis.
\<close>

definition closeAt :: "string \<Rightarrow> string \<Rightarrow> string option" where
  "closeAt marker s =
     (case stripPrefix (CHR 0x0A # marker) s of
        None \<Rightarrow> None
      | Some r \<Rightarrow> stripPrefix '')'' (dropWhile isSpace r))"

text \<open>The lazy body \<^verbatim>\<open>[\s\S]*?\<close>: the first place where the closing line matches.\<close>

fun findTerminator :: "string \<Rightarrow> string \<Rightarrow> string option" where
  "findTerminator marker [] = None"
| "findTerminator marker (c # cs) =
     (case closeAt marker (c # cs) of
        Some r \<Rightarrow> Some r
      | None \<Rightarrow> findTerminator marker cs)"

text \<open>
  One match of \<^verbatim>\<open>\$\(cat\s+<<-?\s*['"]?(\w+)['"]?\n([\s\S]*?)\n\1\s*\)\<close> at the start of
  the text; the result is the text after the match.
\<close>

definition matchCatHeredoc :: "string \<Rightarrow> string option" where
  "matchCatHeredoc s =
     (case stripPrefix ''$(cat'' s of
        None \<Rightarrow> None
      | Some r \<Rightarrow>
          if takeWhile isSpace r = [] then None
          else (case heredocOperator (dropWhile isSpace r) of
                  None \<Rightarrow> None
                | Some (marker, r1) \<Rightarrow>
                    (case stripPrefix [CHR 0x0A] (dropOptional isQuote r1) of
                       None \<Rightarrow> None
                     | Some body \<Rightarrow> findTerminator marker body)))"

subsection \<open>What a match leaves of the text\<close>

lemma stripPrefix_length: "stripPrefix p s = Some r \<Longrightarrow> length s = length p + length r"
  by (induction p s rule: stripPrefix.induct) (auto split: if_splits)


lemma dropOptional_length: "length (dropOptional p s) \<le> length s"
  by (cases s) auto

lemma heredocOperator_length:
  assumes "heredocOperator s = Some (marker, r)"
  shows "length r < length s"
proof -
  from assms obtain r0 where r0: "stripPrefix ''<<'' s = Some r0"
    by (auto simp: heredocOperator_def split: option.splits)
  let ?r3 = "dropOptional isQuote (dropWhile isSpace (dropOptional (\<lambda>c. c = CHR ''-'') r0))"
  from assms r0 have r: "r = dropWhile isWordChar ?r3"
    by (auto simp: heredocOperator_def Let_def split: if_splits)
  have "length ?r3 \<le> length r0"
    by (meson dropOptional_length length_dropWhile_le order_trans)
  moreover have "length r \<le> length ?r3"
    unfolding r by (rule length_dropWhile_le)
  moreover have "length s = 2 + length r0"
    using stripPrefix_length [OF r0] by simp
  ultimately show ?thesis by linarith
qed

lemma closeAt_length: "closeAt marker s = Some r \<Longrightarrow> length r < length s"
proof -
  assume a: "closeAt marker s = Some r"
  then obtain r0 where r0: "stripPrefix (CHR 0x0A # marker) s = Some r0"
    and r1: "stripPrefix '')'' (dropWhile isSpace r0) = Some r"
    by (auto simp: closeAt_def split: option.splits)
  have "length r < length (dropWhile isSpace r0)"
    using stripPrefix_length [OF r1] by simp
  moreover have "length (dropWhile isSpace r0) \<le> length r0"
    by (rule length_dropWhile_le)
  moreover have "length r0 < length s"
    using stripPrefix_length [OF r0] by simp
  ultimately show ?thesis by linarith
qed

lemma findTerminator_length: "findTerminator marker s = Some r \<Longrightarrow> length r < length s"
proof (induction s)
  case Nil
  then show ?case by simp
next
  case (Cons c cs)
  show ?case
  proof (cases "closeAt marker (c # cs)")
    case None
    with Cons show ?thesis by fastforce
  next
    case (Some r')
    with Cons.prems have "r' = r" by simp
    with Some show ?thesis by (auto dest: closeAt_length)
  qed
qed

lemma matchCatHeredoc_length:
  assumes "matchCatHeredoc s = Some r"
  shows "length r < length s"
proof -
  from assms obtain r0 where r0: "stripPrefix ''$(cat'' s = Some r0"
    by (auto simp: matchCatHeredoc_def split: option.splits)
  with assms obtain marker r1 where op: "heredocOperator (dropWhile isSpace r0) = Some (marker, r1)"
    by (auto simp: matchCatHeredoc_def split: option.splits if_splits)
  with assms r0 obtain body where
    body: "stripPrefix [CHR 0x0A] (dropOptional isQuote r1) = Some body"
    and fin: "findTerminator marker body = Some r"
    by (auto simp: matchCatHeredoc_def split: option.splits if_splits)
  have "length r < length body"
    by (rule findTerminator_length [OF fin])
  moreover have "length body < length (dropOptional isQuote r1)"
    using stripPrefix_length [OF body] by simp
  moreover have "length (dropOptional isQuote r1) \<le> length r1"
    by (rule dropOptional_length)
  moreover have "length r1 < length (dropWhile isSpace r0)"
    by (rule heredocOperator_length [OF op])
  moreover have "length (dropWhile isSpace r0) \<le> length r0"
    by (rule length_dropWhile_le)
  moreover have "length r0 < length s"
    using stripPrefix_length [OF r0] by simp
  ultimately show ?thesis by linarith
qed

subsection \<open>The rewrite of the cat-heredoc idiom\<close>

text \<open>
  \<^verbatim>\<open>input.replace(regex, '__HEREDOC_TEXT__')\<close> with the global flag: the text is scanned
  from the left, every match is replaced by the placeholder, and the scan goes on after
  the match; a character where no match starts is copied.
\<close>

function preprocessCatHeredocs :: "string \<Rightarrow> string" where
  "preprocessCatHeredocs [] = []"
| "preprocessCatHeredocs (c # cs) =
     (case matchCatHeredoc (c # cs) of
        Some rest \<Rightarrow> ''__HEREDOC_TEXT__'' @ preprocessCatHeredocs rest
      | None \<Rightarrow> c # preprocessCatHeredocs cs)"
  by pat_completeness auto
termination
  by (relation "measure length") (auto dest: matchCatHeredoc_length)

section \<open>The syntax tree and the results\<close>

text \<open>
  The parser of the shell grammar is a library outside the repository. Its trees are
  modelled by the node interfaces the parser module declares: a word with its optional
  expansion list, a command with optional name, prefix and suffix, pipelines, logical
  expressions and subshells. \<open>Other\<close> is a node of any further type (a redirect operator
  such as \<^verbatim>\<open>dless\<close>, a control-flow construct such as \<^verbatim>\<open>If\<close>), with the child nodes it stores
  under keys other than \<^verbatim>\<open>commandAST\<close> and \<^verbatim>\<open>expansion\<close>.
\<close>

datatype ExpansionType = CommandExpansion | ParameterExpansion | ArithmeticExpansion

record ExpansionNode =
  expansionType :: ExpansionType
  expansionCommand :: "string option"

record WordNode =
  wordText :: string
  expansion :: "ExpansionNode list option"

datatype LogicalOp = And | Or

datatype AstNode =
    Command "WordNode option" "AstNode list option" "AstNode list option"
  | Word WordNode
  | AssignmentWord string
  | Pipeline "AstNode list"
  | LogicalExpression LogicalOp AstNode AstNode
  | Subshell "AstNode list option"
  | Other string "AstNode list"

datatype ScriptNode = Script "AstNode list"

fun scriptCommands :: "ScriptNode \<Rightarrow> AstNode list" where
  "scriptCommands (Script cs) = cs"

fun nodeType :: "AstNode \<Rightarrow> string" where
  "nodeType (Command n p s) = ''Command''"
| "nodeType (Word w) = ''Word''"
| "nodeType (AssignmentWord t) = ''AssignmentWord''"
| "nodeType (Pipeline cs) = ''Pipeline''"
| "nodeType (LogicalExpression op l r) = ''LogicalExpression''"
| "nodeType (Subshell l) = ''Subshell''"
| "nodeType (Other t cs) = t"

record ParsedCommand =
  command :: string
  args :: "string list"
  envPrefixes :: "string list"
  raw :: string

record WalkResult =
  commands :: "ParsedCommand list"
  hasSubshell :: bool
  subshellCommands :: "string list"

record ParseResult = WalkResult +
  parseError :: bool

section \<open>The parser module\<close>

text \<open>
  \<^verbatim>\<open>basename\<close> of the POSIX \<^verbatim>\<open>path\<close> module: trailing separators are ignored, and the
  result is the text after the last separator that remains.
\<close>

definition basename :: "string \<Rightarrow> string" where
  "basename p =
     rev (takeWhile (\<lambda>c. c \<noteq> CHR ''/'') (dropWhile (\<lambda>c. c = CHR ''/'') (rev p)))"

fun assignmentTexts :: "AstNode list \<Rightarrow> string list" where
  "assignmentTexts [] = []"
| "assignmentTexts (AssignmentWord t # ps) = t # assignmentTexts ps"
| "assignmentTexts (p # ps) = assignmentTexts ps"

fun wordTexts :: "AstNode list \<Rightarrow> string list" where
  "wordTexts [] = []"
| "wordTexts (Word w # ss) = wordText w # wordTexts ss"
| "wordTexts (s # ss) = wordTexts ss"

text \<open>\<^verbatim>\<open>convertCommand\<close>, on the name, prefix and suffix of a command node.\<close>

definition convertCommand ::
  "WordNode option \<Rightarrow> AstNode list option \<Rightarrow> AstNode list option \<Rightarrow> ParsedCommand option"
where
  "convertCommand name prefix suffix =
     (case name of
        None \<Rightarrow> None
      | Some nm \<Rightarrow>
          (let cmd = (if CHR ''/'' \<in> set (wordText nm) then basename (wordText nm) else wordText nm);
               envs = (case prefix of None \<Rightarrow> [] | Some ps \<Rightarrow> assignmentTexts ps);
               as = (case suffix of None \<Rightarrow> [] | Some ss \<Rightarrow> wordTexts ss);
               rawParts = envs @ [wordText nm] @ as
           in Some \<lparr>command = cmd, args = as, envPrefixes = envs, raw = joinSpace rawParts\<rparr>))"

text \<open>
  The command strings of an expansion list: an expansion counts when its type is
  \<^verbatim>\<open>CommandExpansion\<close> and its \<^verbatim>\<open>command\<close> is present and not the empty string.
\<close>

fun expansionCommands :: "ExpansionNode list \<Rightarrow> string list" where
  "expansionCommands [] = []"
| "expansionCommands (e # es) =
     (case expansionCommand e of
        Some c \<Rightarrow>
          if expansionType e = CommandExpansion \<and> c \<noteq> [] then c # expansionCommands es
          else expansionCommands es
      | None \<Rightarrow> expansionCommands es)"

fun suffixExpansions :: "AstNode list \<Rightarrow> string list" where
  "suffixExpansions [] = []"
| "suffixExpansions (Word w # ss) =
     (case expansion w of
        Some es \<Rightarrow> expansionCommands es @ suffixExpansions ss
      | None \<Rightarrow> suffixExpansions ss)"
| "suffixExpansions (s # ss) = suffixExpansions ss"

fun collectCommandExpansions :: "AstNode \<Rightarrow> string list" where
  "collectCommandExpansions (Command name prefix suffix) =
     (case suffix of None \<Rightarrow> [] | Some ss \<Rightarrow> suffixExpansions ss) @
     (case name of
        None \<Rightarrow> []
      | Some nm \<Rightarrow> (case expansion nm of None \<Rightarrow> [] | Some es \<Rightarrow> expansionCommands es))"
| "collectCommandExpansions node = []"

definition isShellWrapper :: "ParsedCommand \<Rightarrow> bool" where
  "isShellWrapper parsed =
     ((command parsed = ''sh'' \<or> command parsed = ''bash'' \<or> command parsed = ''zsh'') \<and>
      length (args parsed) \<ge> 2 \<and> args parsed ! 0 = ''-c'')"

text \<open>
  \<^verbatim>\<open>walkNode\<close>. The source mutates the running result; here it is passed in and returned.
  The call back into \<^verbatim>\<open>parseCommand\<close> is the parameter \<open>recur\<close>; its value \<open>None\<close> stands
  for a call that does not return, and then the walk does not return either.
\<close>

fun walkNode ::
  "(string \<Rightarrow> ParseResult option) \<Rightarrow> AstNode \<Rightarrow> WalkResult \<Rightarrow> WalkResult option"
and walkNodes ::
  "(string \<Rightarrow> ParseResult option) \<Rightarrow> AstNode list \<Rightarrow> WalkResult \<Rightarrow> WalkResult option"
where
  "walkNode recur (Command name prefix suffix) result =
     (let expansions = collectCommandExpansions (Command name prefix suffix);
          result1 = (if length expansions > 0
                     then result\<lparr>hasSubshell := True,
                                 subshellCommands := subshellCommands result @ expansions\<rparr>
                     else result)
      in case convertCommand name prefix suffix of
           None \<Rightarrow> Some result1
         | Some parsed \<Rightarrow>
             if isShellWrapper parsed then
               (case recur (args parsed ! 1) of
                  None \<Rightarrow> None
                | Some innerResult \<Rightarrow>
                    if parseError innerResult
                    then Some (result1\<lparr>commands := commands result1 @ [parsed]\<rparr>)
                    else Some (result1
                      \<lparr>commands := commands result1 @ commands innerResult,
                       hasSubshell := hasSubshell result1 \<or> hasSubshell innerResult,
                       subshellCommands :=
                         subshellCommands result1 @ subshellCommands innerResult\<rparr>))
             else Some (result1\<lparr>commands := commands result1 @ [parsed]\<rparr>))"
| "walkNode recur (Pipeline cmds) result = walkNodes recur cmds result"
| "walkNode recur (LogicalExpression op left right) result =
     (case walkNode recur left result of
        None \<Rightarrow> None
      | Some result1 \<Rightarrow> walkNode recur right result1)"
| "walkNode recur (Subshell None) result = Some (result\<lparr>hasSubshell := True\<rparr>)"
| "walkNode recur (Subshell (Some cmds)) result =
     walkNodes recur cmds (result\<lparr>hasSubshell := True\<rparr>)"
| "walkNode recur (Other t children) result =
     (if t \<in> set [''If'', ''For'', ''While'', ''Until'', ''Case'', ''Function'']
      then Some (result\<lparr>hasSubshell := True\<rparr>)
      else Some result)"
| "walkNode recur (Word w) result = Some result"
| "walkNode recur (AssignmentWord t) result = Some result"
| "walkNodes recur [] result = Some result"
| "walkNodes recur (n # ns) result =
     (case walkNode recur n result of
        None \<Rightarrow> None
      | Some result1 \<Rightarrow> walkNodes recur ns result1)"

text \<open>\<^verbatim>\<open>hasHeredocRedirect\<close>, on the suffix of a command node.\<close>

definition hasHeredocRedirect :: "AstNode list option \<Rightarrow> bool" where
  "hasHeredocRedirect suffix =
     (case suffix of
        None \<Rightarrow> False
      | Some ss \<Rightarrow> list_ex (\<lambda>s. nodeType s = ''dless'' \<or> nodeType s = ''dlessdash'') ss)"

text \<open>
  The inner function \<^verbatim>\<open>check\<close> of \<^verbatim>\<open>astHasHeredoc\<close>: a command node is tested for a
  heredoc redirect, and every child node is searched, expansion lists apart. The name
  of a command and the words of its lists have strings as their only other entries.
\<close>

fun check :: "AstNode \<Rightarrow> bool"
and checks :: "AstNode list \<Rightarrow> bool"
where
  "check (Command name prefix suffix) =
     (hasHeredocRedirect suffix \<or>
      (case prefix of None \<Rightarrow> False | Some ps \<Rightarrow> checks ps) \<or>
      (case suffix of None \<Rightarrow> False | Some ss \<Rightarrow> checks ss))"
| "check (Word w) = False"
| "check (AssignmentWord t) = False"
| "check (Pipeline cmds) = checks cmds"
| "check (LogicalExpression op left right) = (check left \<or> check right)"
| "check (Subshell None) = False"
| "check (Subshell (Some cmds)) = checks cmds"
| "check (Other t children) = checks children"
| "checks [] = False"
| "checks (n # ns) = (check n \<or> checks ns)"

definition astHasHeredoc :: "ScriptNode \<Rightarrow> bool" where
  "astHasHeredoc ast = checks (scriptCommands ast)"

definition emptyWalk :: WalkResult where
  "emptyWalk = \<lparr>commands = [], hasSubshell = False, subshellCommands = []\<rparr>"

text \<open>
  The first-line fallback of both branches: the first line of the text, without the
  heredoc operator and what follows it, trimmed.
\<close>

definition commandPart :: "string \<Rightarrow> string" where
  "commandPart input = trim (stripHeredocSuffix (firstLine input))"

text \<open>
  \<^verbatim>\<open>parseCommand\<close>. The library parser is the parameter \<open>parse\<close>; \<open>None\<close> is a parse that
  throws. The first argument bounds the depth of the calls through \<^verbatim>\<open>walkNode\<close>: with
  none left the result is \<open>None\<close>, the call has not returned.
\<close>

fun parseCommand ::
  "nat \<Rightarrow> (string \<Rightarrow> ScriptNode option) \<Rightarrow> string \<Rightarrow> ParseResult option"
where
  "parseCommand 0 parse input = None"
| "parseCommand (Suc depth) parse input =
     (if input = [] \<or> trim input = [] then
        Some \<lparr>commands = [], hasSubshell = False, subshellCommands = [], parseError = False\<rparr>
      else
        (let input1 = preprocessCatHeredocs input in
         case parse input1 of
           Some ast \<Rightarrow>
             if astHasHeredoc ast then
               (let cmdPart = commandPart input1 in
                if cmdPart = [] then
                  Some \<lparr>commands = [], hasSubshell = False, subshellCommands = [],
                        parseError = True\<rparr>
                else
                  (case parse cmdPart of
                     Some cmdAst \<Rightarrow>
                       (case walkNodes (parseCommand depth parse) (scriptCommands cmdAst)
                               emptyWalk of
                          None \<Rightarrow> None
                        | Some result \<Rightarrow>
                            Some \<lparr>commands = commands result, hasSubshell = True,
                                  subshellCommands = subshellCommands result,
                                  parseError = False\<rparr>)
                   | None \<Rightarrow>
                       Some \<lparr>commands = [], hasSubshell = True, subshellCommands = [],
                             parseError = True\<rparr>))
             else
               (case walkNodes (parseCommand depth parse) (scriptCommands ast) emptyWalk of
                  None \<Rightarrow> None
                | Some result \<Rightarrow>
                    Some \<lparr>commands = commands result, hasSubshell = hasSubshell result,
                          subshellCommands = subshellCommands result, parseError = False\<rparr>)
         | None \<Rightarrow>
             if heredocRegexTest input1 then
               (let cmdPart = commandPart input1 in
                if cmdPart = [] then
                  Some \<lparr>commands = [], hasSubshell = True, subshellCommands = [],
                        parseError = True\<rparr>
                else
                  (case parse cmdPart of
                     Some ast \<Rightarrow>
                       (case walkNodes (parseCommand depth parse) (scriptCommands ast)
                               emptyWalk of
                          None \<Rightarrow> None
                        | Some result \<Rightarrow>
                            Some \<lparr>commands = commands result, hasSubshell = True,
                                  subshellCommands = subshellCommands result,
                                  parseError = False\<rparr>)
                   | None \<Rightarrow>
                       Some \<lparr>commands = [], hasSubshell = True, subshellCommands = [],
                             parseError = True\<rparr>))
             else
               Some \<lparr>commands = [], hasSubshell = False, subshellCommands = [],
                     parseError = True\<rparr>))"

section \<open>The built-in configuration\<close>

text \<open>
  The type declarations of the configuration are not among the sources; the records
  follow the fields the configuration module writes. The rule fields \<^verbatim>\<open>command\<close> and
  \<^verbatim>\<open>default\<close> are \<open>ruleCommand\<close> and \<open>ruleDefault\<close> here, the bounds \<^verbatim>\<open>min\<close> and \<^verbatim>\<open>max\<close>
  are \<open>minCount\<close> and \<open>maxCount\<close>. An optional field that a value does
  not write is \<open>None\<close>. The specification lists \<^verbatim>\<open>globalDeny\<close> beside \<^verbatim>\<open>alwaysAllow\<close> and
  \<^verbatim>\<open>alwaysDeny\<close>, so it is an optional field of a layer.
\<close>

datatype Decision = Allow | Deny | Ask

record ArgCount =
  minCount :: "nat option"
  maxCount :: "nat option"

record MatchSpec =
  anyArgMatches :: "string list option"
  argsMatch :: "string list option"
  noArgs :: "bool option"
  argCount :: "ArgCount option"
  not :: "bool option"

record ArgPattern =
  match :: MatchSpec
  decision :: Decision
  reason :: "string option"
  description :: "string option"

record CommandRule =
  ruleCommand :: string
  ruleDefault :: Decision
  argPatterns :: "ArgPattern list option"

record GlobalDenyPattern =
  pattern :: string
  denyReason :: string

record Layer =
  alwaysAllow :: "string list"
  alwaysDeny :: "string list"
  globalDeny :: "GlobalDenyPattern list option"
  rules :: "CommandRule list"

record WardenConfig =
  defaultDecision :: Decision
  askOnSubshell :: bool
  trustedSSHHosts :: "string list"
  trustedDockerContainers :: "string list"
  trustedKubectlContexts :: "string list"
  trustedSprites :: "string list"
  layers :: "Layer list"

definition backslash :: string where
  "backslash = [CHR 0x5C]"

definition noMatch :: MatchSpec where
  "noMatch = \<lparr>anyArgMatches = None, argsMatch = None, noArgs = None, argCount = None,
     not = None\<rparr>"

definition SAFE_DEV_TOOLS :: "string list" where
  "SAFE_DEV_TOOLS =
     [''jest'', ''vitest'', ''tsc'', ''eslint'', ''prettier'', ''mkdirp'', ''concurrently'',
      ''turbo'', ''next'', ''nuxt'', ''vite'', ''astro'', ''playwright'', ''cypress'',
      ''mocha'', ''nyc'', ''c8'', ''ts-jest'', ''tsup'', ''esbuild'', ''rollup'', ''webpack'',
      ''prisma'', ''drizzle-kit'', ''typeorm'', ''knex'', ''sequelize-cli'',
      ''tailwindcss'', ''postcss'', ''autoprefixer'', ''lint-staged'', ''husky'',
      ''changeset'', ''semantic-release'', ''lerna'', ''nx'',
      ''create-react-app'', ''create-next-app'', ''create-vite'', ''degit'',
      ''storybook'', ''wrangler'', ''netlify'', ''vercel'', ''json'']"

definition SCRIPT_RUNNERS :: "string list" where
  "SCRIPT_RUNNERS = [''tsx'', ''ts-node'', ''nodemon'']"

definition REGISTRY_OPS :: "string list" where
  "REGISTRY_OPS =
     [''publish'', ''unpublish'', ''deprecate'', ''owner'', ''access'', ''token'', ''adduser'',
      ''login'', ''logout'']"

definition SAFE_PKG_MANAGER_CMDS :: "string list" where
  "SAFE_PKG_MANAGER_CMDS =
     [''install'', ''add'', ''remove'', ''uninstall'', ''update'', ''upgrade'', ''outdated'',
      ''ls'', ''list'', ''run'', ''test'', ''start'', ''build'', ''init'', ''create'',
      ''info'', ''view'', ''show'', ''why'', ''pack'', ''cache'', ''config'', ''get'', ''set'',
      ''version'', ''help'', ''exec'', ''dedupe'', ''prune'', ''audit'', ''completion'']"

definition VERSION_HELP_FLAGS :: ArgPattern where
  "VERSION_HELP_FLAGS =
     \<lparr>match = noMatch\<lparr>anyArgMatches := Some [''^--(version|help)$'', ''^-[vh]$'']\<rparr>,
      decision = Allow, reason = None, description = Some ''Version/help flags''\<rparr>"

text \<open>\<^verbatim>\<open>items.join('|')\<close>.\<close>

fun joinBar :: "string list \<Rightarrow> string" where
  "joinBar [] = []"
| "joinBar [x] = x"
| "joinBar (x # y # ys) = x @ CHR ''|'' # joinBar (y # ys)"

definition anyArgMatchesPattern :: "string list \<Rightarrow> string" where
  "anyArgMatchesPattern items = ''^('' @ joinBar items @ '')$''"

definition safeDevToolsPattern :: ArgPattern where
  "safeDevToolsPattern =
     \<lparr>match = noMatch\<lparr>anyArgMatches := Some [anyArgMatchesPattern SAFE_DEV_TOOLS]\<rparr>,
      decision = Allow, reason = None, description = Some ''Well-known dev tools''\<rparr>"

definition scriptRunnersPattern :: ArgPattern where
  "scriptRunnersPattern =
     \<lparr>match = noMatch\<lparr>anyArgMatches := Some [anyArgMatchesPattern SCRIPT_RUNNERS]\<rparr>,
      decision = Ask, reason = Some ''Script runners can execute arbitrary code'',
      description = None\<rparr>"

definition registryOpsPattern :: ArgPattern where
  "registryOpsPattern =
     \<lparr>match = noMatch\<lparr>anyArgMatches := Some [anyArgMatchesPattern REGISTRY_OPS]\<rparr>,
      decision = Ask, reason = Some ''Registry modification'', description = None\<rparr>"

definition pkgManagerRule :: "string \<Rightarrow> string list \<Rightarrow> CommandRule" where
  "pkgManagerRule cmd extraSafeCmds =
     (let safeCmds = SAFE_PKG_MANAGER_CMDS @ extraSafeCmds in
      \<lparr>ruleCommand = cmd, ruleDefault = Ask,
       argPatterns = Some
         [registryOpsPattern,
          \<lparr>match = noMatch\<lparr>anyArgMatches := Some [anyArgMatchesPattern safeCmds]\<rparr>,
           decision = Allow, reason = None,
           description = Some (''Standard '' @ cmd @ '' commands'')\<rparr>,
          VERSION_HELP_FLAGS]\<rparr>)"

definition pkgRunnerRule :: "string \<Rightarrow> CommandRule" where
  "pkgRunnerRule cmd =
     \<lparr>ruleCommand = cmd, ruleDefault = Ask,
      argPatterns = Some [safeDevToolsPattern, scriptRunnersPattern, VERSION_HELP_FLAGS]\<rparr>"

text \<open>Shorthands for the rule literals of the table below.\<close>

definition plainRule :: "string \<Rightarrow> Decision \<Rightarrow> CommandRule" where
  "plainRule cmd d = \<lparr>ruleCommand = cmd, ruleDefault = d, argPatterns = None\<rparr>"

definition anyArg :: "string list \<Rightarrow> Decision \<Rightarrow> string option \<Rightarrow> string option \<Rightarrow> ArgPattern" where
  "anyArg ps d r ds =
     \<lparr>match = noMatch\<lparr>anyArgMatches := Some ps\<rparr>, decision = d, reason = r, description = ds\<rparr>"

definition argsMatching :: "string list \<Rightarrow> Decision \<Rightarrow> string option \<Rightarrow> string option \<Rightarrow> ArgPattern" where
  "argsMatching ps d r ds =
     \<lparr>match = noMatch\<lparr>argsMatch := Some ps\<rparr>, decision = d, reason = r, description = ds\<rparr>"

definition defaultAlwaysAllow :: "string list" where
  "defaultAlwaysAllow =
     [''cat'', ''head'', ''tail'', ''less'', ''more'', ''wc'', ''sort'', ''uniq'', ''tee'',
      ''diff'', ''comm'', ''cut'', ''paste'', ''tr'', ''fold'', ''expand'', ''unexpand'',
      ''column'', ''rev'', ''tac'', ''nl'', ''od'', ''xxd'', ''file'', ''stat'',
      ''grep'', ''egrep'', ''fgrep'', ''rg'', ''ag'', ''ack'', ''find'', ''fd'', ''fzf'',
      ''locate'', ''which'', ''whereis'', ''type'', ''command'',
      ''ls'', ''dir'', ''tree'', ''exa'', ''eza'', ''lsd'',
      ''basename'', ''dirname'', ''realpath'', ''readlink'',
      ''echo'', ''printf'', ''true'', ''false'', ''test'', ''['',
      ''date'', ''cal'',
      ''env'', ''printenv'', ''uname'', ''hostname'', ''whoami'', ''id'', ''pwd'',
      ''ps'', ''top'', ''htop'', ''uptime'', ''free'', ''df'', ''du'', ''lsof'',
      ''sed'', ''awk'', ''jq'', ''yq'', ''xargs'', ''seq'',
      ''bat'', ''pygmentize'', ''highlight'',
      ''nvm'', ''fnm'', ''rbenv'', ''pyenv'',
      ''stty'', ''tput'', ''reset'', ''clear'',
      ''cd'', ''pushd'', ''popd'', ''dirs'', ''hash'', ''alias'',
      ''sleep'', ''wait'', ''time'',
      ''md5'', ''md5sum'', ''sha256sum'', ''shasum'', ''cksum'',
      ''base64'', ''openssl'']"

definition defaultAlwaysDeny :: "string list" where
  "defaultAlwaysDeny =
     [''sudo'', ''su'', ''doas'',
      ''mkfs'', ''fdisk'', ''dd'',
      ''shutdown'', ''reboot'', ''halt'', ''poweroff'',
      ''iptables'', ''ip6tables'', ''nft'',
      ''useradd'', ''userdel'', ''usermod'', ''groupadd'', ''groupdel'',
      ''crontab'',
      ''systemctl'', ''service'', ''launchctl'']"

definition recursiveForcePattern :: string where
  "recursiveForcePattern =
     ''-[^'' @ backslash @ ''s]*r[^'' @ backslash @ ''s]*f|-[^'' @ backslash @ ''s]*f[^'' @
     backslash @ ''s]*r''"

definition recursivePattern :: string where
  "recursivePattern = ''-[^'' @ backslash @ ''s]*r''"

definition rmRule :: CommandRule where
  "rmRule =
     \<lparr>ruleCommand = ''rm'', ruleDefault = Ask,
      argPatterns = Some
        [argsMatching [recursiveForcePattern] Ask (Some ''Recursive force delete (rm -rf)'') None,
         argsMatching [recursivePattern] Ask (Some ''Recursive delete'') None,
         \<lparr>match = noMatch\<lparr>argCount := Some \<lparr>minCount = None, maxCount = Some 3\<rparr>,
                           not := Some False\<rparr>,
          decision = Allow, reason = None,
          description = Some ''Deleting a small number of non-recursive files''\<rparr>]\<rparr>"

definition defaultRules :: "CommandRule list" where
  "defaultRules =
     [\<lparr>ruleCommand = ''claude'', ruleDefault = Ask,
       argPatterns = Some
         [anyArg [''^--(version|help)$'', ''^-[vh]$''] Allow None (Some ''Version/help flags'')]\<rparr>] @
     map (\<lambda>cmd. \<lparr>ruleCommand = cmd, ruleDefault = Ask,
                 argPatterns = Some
                   [anyArg [''^--(version|help)$''] Allow None (Some ''Version/help flags'')]\<rparr>)
       [''bash'', ''sh'', ''zsh''] @
     [\<lparr>ruleCommand = ''node'', ruleDefault = Ask,
       argPatterns = Some
         [anyArg [''^-e$'', ''^--eval'', ''^-p$'', ''^--print''] Ask
            (Some ''Evaluating inline code'') None,
          anyArg [''^--(version|help)$'', ''^-[vh]$''] Allow None (Some ''Version/help flags''),
          \<lparr>match = noMatch\<lparr>noArgs := Some True\<rparr>, decision = Ask,
           reason = Some ''Interactive REPL'', description = None\<rparr>]\<rparr>,
      pkgRunnerRule ''npx'',
      pkgRunnerRule ''bunx'',
      pkgManagerRule ''npm''
        [''ci'', ''search'', ''explain'', ''prefix'', ''root'', ''fund'', ''doctor'', ''diff'',
         ''pkg'', ''query'', ''shrinkwrap''],
      pkgManagerRule ''pnpm'' [''store'', ''fetch'', ''doctor'', ''patch''],
      pkgManagerRule ''yarn'' [''up'', ''dlx'', ''workspaces''],
      \<lparr>ruleCommand = ''bun'', ruleDefault = Ask,
       argPatterns = Some
         [anyArg
            [anyArgMatchesPattern
               (SAFE_PKG_MANAGER_CMDS @ [''ci'', ''pm'', ''x'', ''link'', ''unlink''])]
            Allow None (Some ''Standard bun commands''),
          safeDevToolsPattern,
          scriptRunnersPattern,
          VERSION_HELP_FLAGS]\<rparr>] @
     map (\<lambda>cmd. \<lparr>ruleCommand = cmd, ruleDefault = Ask,
                 argPatterns = Some [anyArg [''^--(version|help)$'', ''^-V$''] Allow None None]\<rparr>)
       [''python'', ''python3''] @
     [plainRule ''pip'' Allow,
      plainRule ''pip3'' Allow,
      \<lparr>ruleCommand = ''uv'', ruleDefault = Allow,
       argPatterns = Some [anyArg [''^publish$''] Ask (Some ''Publishing to PyPI'') None]\<rparr>,
      plainRule ''pipx'' Ask,
      \<lparr>ruleCommand = ''git'', ruleDefault = Allow,
       argPatterns = Some
         [argsMatching
            [''push'' @ backslash @ ''s+--force'',
             ''push'' @ backslash @ ''s+-f'' @ backslash @ ''b'']
            Ask (Some ''Force push can overwrite remote history'') None,
          argsMatching [''reset'' @ backslash @ ''s+--hard''] Ask
            (Some ''Hard reset discards changes'') None,
          anyArg [''^clean$''] Ask (Some ''git clean removes untracked files'') None]\<rparr>,
      \<lparr>ruleCommand = ''gh'', ruleDefault = Allow,
       argPatterns = Some
         [argsMatching
            [''repo'' @ backslash @ ''s+delete'', ''repo'' @ backslash @ ''s+archive'']
            Ask (Some ''Destructive repo operation'') None]\<rparr>,
      plainRule ''make'' Allow,
      plainRule ''cmake'' Allow,
      \<lparr>ruleCommand = ''cargo'', ruleDefault = Allow,
       argPatterns = Some
         [anyArg [''^(publish|login|logout|owner|yank)$''] Ask
            (Some ''Registry modification'') None]\<rparr>,
      \<lparr>ruleCommand = ''go'', ruleDefault = Allow,
       argPatterns = Some
         [anyArg [''^generate$''] Ask (Some ''go generate runs arbitrary commands'') None]\<rparr>,
      plainRule ''rustup'' Allow,
      plainRule ''tsc'' Allow,
      plainRule ''turbo'' Allow,
      plainRule ''nx'' Allow,
      plainRule ''lerna'' Allow,
      \<lparr>ruleCommand = ''docker'', ruleDefault = Ask,
       argPatterns = Some
         [anyArg [''^(ps|images|logs|inspect|stats|top|version|info)$''] Allow None
            (Some ''Read-only docker commands''),
          anyArg [''^(build|run|compose|exec|pull|stop|start|restart|create)$''] Ask
            (Some ''Docker state-changing operation'') None,
          anyArg
            [''^(system'' @ backslash @ ''s+prune|container'' @ backslash @ ''s+prune|image'' @
             backslash @ ''s+prune)$'']
            Ask (Some ''Docker prune operations'') None]\<rparr>,
      plainRule ''docker-compose'' Ask,
      plainRule ''kubectl'' Ask,
      rmRule,
      plainRule ''mkdir'' Allow,
      plainRule ''touch'' Allow,
      plainRule ''cp'' Allow,
      plainRule ''mv'' Allow,
      plainRule ''ln'' Allow,
      \<lparr>ruleCommand = ''chmod'', ruleDefault = Ask,
       argPatterns = Some
         [argsMatching [''-R'' @ backslash @ ''s+777''] Deny
            (Some ''Recursively setting world-writable permissions'') None]\<rparr>,
      plainRule ''chown'' Ask,
      plainRule ''curl'' Allow,
      plainRule ''wget'' Allow,
      plainRule ''ssh'' Ask,
      plainRule ''scp'' Ask,
      plainRule ''rsync'' Ask,
      plainRule ''brew'' Allow,
      plainRule ''apt'' Ask,
      plainRule ''apt-get'' Ask,
      plainRule ''yum'' Ask,
      plainRule ''dnf'' Ask,
      plainRule ''pacman'' Ask,
      \<lparr>ruleCommand = ''terraform'', ruleDefault = Ask,
       argPatterns = Some
         [anyArg
            [''^(plan|validate|fmt|show|state|output|providers|version|graph|console)$'']
            Allow None (Some ''Read-only terraform commands'')]\<rparr>]"

definition DEFAULT_CONFIG :: WardenConfig where
  "DEFAULT_CONFIG =
     \<lparr>defaultDecision = Ask,
      askOnSubshell = True,
      trustedSSHHosts = [],
      trustedDockerContainers = [],
      trustedKubectlContexts = [],
      trustedSprites = [],
      layers = [\<lparr>alwaysAllow = defaultAlwaysAllow, alwaysDeny = defaultAlwaysDeny,
                 globalDeny = None, rules = defaultRules\<rparr>]\<rparr>"

text \<open>A configuration with the given global deny patterns in every layer.\<close>

definition withGlobalDeny :: "GlobalDenyPattern list option \<Rightarrow> WardenConfig \<Rightarrow> WardenConfig" where
  "withGlobalDeny gd config = config\<lparr>layers := map (\<lambda>l. l\<lparr>globalDeny := gd\<rparr>) (layers config)\<rparr>"

section \<open>The evaluation of an invocation\<close>

text \<open>
  Modelled from the spec: the rule matcher (section 4.2) is not among the sources. All
  predicates a match specification holds must be true; \<^verbatim>\<open>anyArgMatches\<close> asks for an
  argument that some expression matches in full, \<^verbatim>\<open>argsMatch\<close> for an expression that
  matches somewhere in \<^verbatim>\<open>raw\<close>, \<^verbatim>\<open>noArgs\<close> compares with the emptiness of the arguments,
  \<^verbatim>\<open>argCount\<close> bounds their number, and \<^verbatim>\<open>not\<close> set to true inverts the outcome. The
  regular-expression engine is the pair of parameters \<open>fullmatch\<close> and \<open>search\<close>, each
  taking the expression and the text.
\<close>

definition matchesSpec ::
  "(string \<Rightarrow> string \<Rightarrow> bool) \<Rightarrow> (string \<Rightarrow> string \<Rightarrow> bool) \<Rightarrow> MatchSpec \<Rightarrow> ParsedCommand \<Rightarrow> bool"
where
  "matchesSpec fullmatch search spec c =
     (let anyOk = (case anyArgMatches spec of
                     None \<Rightarrow> True
                   | Some rs \<Rightarrow> list_ex (\<lambda>a. list_ex (\<lambda>r. fullmatch r a) rs) (args c));
          argsOk = (case argsMatch spec of
                      None \<Rightarrow> True
                    | Some rs \<Rightarrow> list_ex (\<lambda>r. search r (raw c)) rs);
          noArgsOk = (case noArgs spec of
                        None \<Rightarrow> True
                      | Some b \<Rightarrow> b = (length (args c) = 0));
          countOk = (case argCount spec of
                       None \<Rightarrow> True
                     | Some bounds \<Rightarrow>
                         (case minCount bounds of None \<Rightarrow> True | Some m \<Rightarrow> m \<le> length (args c)) \<and>
                         (case maxCount bounds of None \<Rightarrow> True | Some m \<Rightarrow> length (args c) \<le> m));
          outcome = (anyOk \<and> argsOk \<and> noArgsOk \<and> countOk)
      in if not spec = Some True then \<not> outcome else outcome)"

text \<open>
  Modelled from the spec: the evaluation of a command rule (section 4.2) is not among
  the sources. The patterns are walked in order, the first that matches gives the
  decision, and the default of the rule is the decision when none matches.
\<close>

definition evaluateRule ::
  "(string \<Rightarrow> string \<Rightarrow> bool) \<Rightarrow> (string \<Rightarrow> string \<Rightarrow> bool) \<Rightarrow> CommandRule \<Rightarrow> ParsedCommand \<Rightarrow> Decision"
where
  "evaluateRule fullmatch search rule c =
     (case argPatterns rule of
        None \<Rightarrow> ruleDefault rule
      | Some ps \<Rightarrow>
          (case find (\<lambda>p. matchesSpec fullmatch search (match p) c) ps of
             Some p \<Rightarrow> decision p
           | None \<Rightarrow> ruleDefault rule))"

text \<open>
  Modelled from the spec: the layered evaluator (section 4.3) is not among the sources.
  In this order: a global deny pattern that matches the original input denies; a
  command in \<^verbatim>\<open>alwaysDeny\<close> is denied; a command in \<^verbatim>\<open>alwaysAllow\<close> is allowed; the first
  rule for the command decides; the default decision is the result. The lists are those
  of all layers. The reason that goes with a decision is left out.
\<close>

definition evaluateInvocation ::
  "(string \<Rightarrow> string \<Rightarrow> bool) \<Rightarrow> (string \<Rightarrow> string \<Rightarrow> bool) \<Rightarrow> WardenConfig \<Rightarrow> string \<Rightarrow>
     ParsedCommand \<Rightarrow> Decision"
where
  "evaluateInvocation fullmatch search config input c =
     (let denyPatterns =
            concat (map (\<lambda>l. case globalDeny l of None \<Rightarrow> [] | Some ps \<Rightarrow> ps) (layers config));
          denied = concat (map alwaysDeny (layers config));
          allowed = concat (map alwaysAllow (layers config));
          allRules = concat (map rules (layers config))
      in if list_ex (\<lambda>g. search (pattern g) input) denyPatterns then Deny
         else if command c \<in> set denied then Deny
         else if command c \<in> set allowed then Allow
         else (case find (\<lambda>r. ruleCommand r = command c) allRules of
                 Some r \<Rightarrow> evaluateRule fullmatch search r c
               | None \<Rightarrow> defaultDecision config))"

section \<open>Notions for the statements\<close>

text \<open>
  The texts on which a walk over a node re-enters \<^verbatim>\<open>parseCommand\<close>: the second argument of
  every shell wrapper among the commands the walk reaches.
\<close>

fun unwrapTargets :: "AstNode \<Rightarrow> string list"
and unwrapTargetsList :: "AstNode list \<Rightarrow> string list"
where
  "unwrapTargets (Command name prefix suffix) =
     (case convertCommand name prefix suffix of
        None \<Rightarrow> []
      | Some parsed \<Rightarrow> if isShellWrapper parsed then [args parsed ! 1] else [])"
| "unwrapTargets (Pipeline cmds) = unwrapTargetsList cmds"
| "unwrapTargets (LogicalExpression op left right) = unwrapTargets left @ unwrapTargets right"
| "unwrapTargets (Subshell None) = []"
| "unwrapTargets (Subshell (Some cmds)) = unwrapTargetsList cmds"
| "unwrapTargets (Other t children) = []"
| "unwrapTargets (Word w) = []"
| "unwrapTargets (AssignmentWord t) = []"
| "unwrapTargetsList [] = []"
| "unwrapTargetsList (n # ns) = unwrapTargets n @ unwrapTargetsList ns"







section \<open>A sample parser and a sample expression engine\<close>

text \<open>
  The concrete checks below run \<^verbatim>\<open>parseCommand\<close> on a parser given by a table: a few
  command lines, each with the tree the shell grammar gives it, and a parse error for
  every other text.
\<close>

definition plainWord :: "string \<Rightarrow> WordNode" where
  "plainWord t = \<lparr>wordText = t, expansion = None\<rparr>"

definition sampleParse :: "string \<Rightarrow> ScriptNode option" where
  "sampleParse s =
     (if s = ''ls'' then Some (Script [Command (Some (plainWord ''ls'')) None None])
      else if s = ''bash -c ls'' then
        Some (Script [Command (Some (plainWord ''bash'')) None
                        (Some [Word (plainWord ''-c''), Word (plainWord ''ls'')])])
      else if s = ''FOO=1 /bin/ls -la'' then
        Some (Script [Command (Some (plainWord ''/bin/ls'')) (Some [AssignmentWord ''FOO=1''])
                        (Some [Word (plainWord ''-la'')])])
      else if s = ''echo $(whoami)'' then
        Some (Script [Command (Some (plainWord ''echo'')) None
                        (Some [Word \<lparr>wordText = ''$(whoami)'',
                                      expansion = Some [\<lparr>expansionType = CommandExpansion,
                                                         expansionCommand = Some ''whoami''\<rparr>]\<rparr>])])
      else if s = ''cat <<EOF'' then
        Some (Script [Command (Some (plainWord ''cat'')) None (Some [Other ''dless'' []])])
      else if s = ''cat'' then Some (Script [Command (Some (plainWord ''cat'')) None None])
      else if s = ''gh pr create --body '' @ [CHR 0x22] @ ''__HEREDOC_TEXT__'' @ [CHR 0x22] then
        Some (Script [Command (Some (plainWord ''gh'')) None
                        (Some [Word (plainWord ''pr''), Word (plainWord ''create''),
                               Word (plainWord ''--body''),
                               Word (plainWord ''__HEREDOC_TEXT__'')])])
      else None)"

text \<open>
  Regular expressions over character classes, matched by derivatives; \<open>rexpSearch\<close> asks
  for a match somewhere in the text. The two expressions of the \<^verbatim>\<open>rm\<close> rule are written
  out in this form, and \<open>sampleSearch\<close> knows these two and no other.
\<close>

datatype rexp =
    Never
  | Empty
  | Sym "char \<Rightarrow> bool"
  | Alt rexp rexp
  | Seq rexp rexp
  | Star rexp

fun nullable :: "rexp \<Rightarrow> bool" where
  "nullable Never = False"
| "nullable Empty = True"
| "nullable (Sym p) = False"
| "nullable (Alt r s) = (nullable r \<or> nullable s)"
| "nullable (Seq r s) = (nullable r \<and> nullable s)"
| "nullable (Star r) = True"

fun deriv :: "char \<Rightarrow> rexp \<Rightarrow> rexp" where
  "deriv c Never = Never"
| "deriv c Empty = Never"
| "deriv c (Sym p) = (if p c then Empty else Never)"
| "deriv c (Alt r s) = Alt (deriv c r) (deriv c s)"
| "deriv c (Seq r s) =
     (if nullable r then Alt (Seq (deriv c r) s) (deriv c s) else Seq (deriv c r) s)"
| "deriv c (Star r) = Seq (deriv c r) (Star r)"

fun rexpMatches :: "rexp \<Rightarrow> string \<Rightarrow> bool" where
  "rexpMatches r [] = nullable r"
| "rexpMatches r (c # cs) = rexpMatches (deriv c r) cs"

definition rexpSearch :: "rexp \<Rightarrow> string \<Rightarrow> bool" where
  "rexpSearch r s =
     rexpMatches (Seq (Star (Sym (\<lambda>c. True))) (Seq r (Star (Sym (\<lambda>c. True))))) s"

definition nonSpaces :: rexp where
  "nonSpaces = Star (Sym (\<lambda>c. \<not> isSpace c))"

definition letter :: "char \<Rightarrow> rexp" where
  "letter x = Sym (\<lambda>c. c = x)"

definition recursiveForce :: rexp where
  "recursiveForce =
     Alt (Seq (letter CHR ''-'') (Seq nonSpaces (Seq (letter CHR ''r'')
            (Seq nonSpaces (letter CHR ''f'')))))
         (Seq (letter CHR ''-'') (Seq nonSpaces (Seq (letter CHR ''f'')
            (Seq nonSpaces (letter CHR ''r'')))))"

definition recursive :: rexp where
  "recursive = Seq (letter CHR ''-'') (Seq nonSpaces (letter CHR ''r''))"

definition sampleSearch :: "string \<Rightarrow> string \<Rightarrow> bool" where
  "sampleSearch p s =
     (if p = recursiveForcePattern then rexpSearch recursiveForce s
      else if p = recursivePattern then rexpSearch recursive s
      else False)"

section \<open>Properties of the walk\<close>



text \<open>A walk depends on the function it calls back only at the wrapper arguments.\<close>

lemma walk_cong:
  "\<forall>t \<in> set (unwrapTargets node). recur t = recur' t \<Longrightarrow>
     walkNode recur node result = walkNode recur' node result"
  "\<forall>t \<in> set (unwrapTargetsList nodes). recur t = recur' t \<Longrightarrow>
     walkNodes recur nodes result = walkNodes recur' nodes result"
proof (induction recur node result and recur nodes result rule: walkNode_walkNodes.induct)
  case (1 recur name prefix suffix result)
  then show ?case
    by (auto simp: Let_def simp del: collectCommandExpansions.simps split: option.splits)
next
  case (3 recur op left right result)
  from "3.prems" have l: "walkNode recur left result = walkNode recur' left result"
    by (intro "3.IH"(1)) simp
  show ?case
  proof (cases "walkNode recur left result")
    case None
    with l show ?thesis by simp
  next
    case (Some mid)
    from "3.prems" have "walkNode recur right mid = walkNode recur' right mid"
      by (intro "3.IH"(2) [OF Some]) simp
    moreover from l Some have "walkNode recur' left result = Some mid" by simp
    ultimately show ?thesis using Some by simp
  qed
next
  case (10 recur n ns result)
  from "10.prems" have l: "walkNode recur n result = walkNode recur' n result"
    by (intro "10.IH"(1)) simp
  show ?case
  proof (cases "walkNode recur n result")
    case None
    with l show ?thesis by simp
  next
    case (Some mid)
    from "10.prems" have "walkNodes recur ns mid = walkNodes recur' ns mid"
      by (intro "10.IH"(2) [OF Some]) simp
    moreover from l Some have "walkNode recur' n result = Some mid" by simp
    ultimately show ?thesis using Some by simp
  qed
qed simp_all

section \<open>Termination\<close>

lemma stripHeredocSuffix_length: "length (stripHeredocSuffix s) \<le> length s"
  by (induction s rule: stripHeredocSuffix.induct) (auto split: option.splits prod.splits)

lemma trim_Nil [simp]: "trim [] = []"
  by (simp add: trim_def)

lemma trim_length: "length (trim s) \<le> length s"
proof -
  have "length (trim s) \<le> length (dropWhile isSpace s)"
    unfolding trim_def by (metis length_dropWhile_le length_rev)
  also have "\<dots> \<le> length s" by (rule length_dropWhile_le)
  finally show ?thesis .
qed

lemma commandPart_length: "length (commandPart s) \<le> length s"
proof -
  have "length (commandPart s) \<le> length (stripHeredocSuffix (firstLine s))"
    unfolding commandPart_def by (rule trim_length)
  also have "\<dots> \<le> length (firstLine s)" by (rule stripHeredocSuffix_length)
  also have "\<dots> \<le> length s" unfolding firstLine_def by (rule length_takeWhile_le)
  finally show ?thesis .
qed




section \<open>The contract of parseCommand\<close>





text \<open>
  C3. A command whose basename is \<^verbatim>\<open>sh\<close>, \<^verbatim>\<open>bash\<close> or \<^verbatim>\<open>zsh\<close>, with \<^verbatim>\<open>-c\<close> as first argument
  and at least two arguments, makes the walk call \<^verbatim>\<open>parseCommand\<close> on the second
  argument. When that result has no parse error, its invocations take the place of the
  wrapper, its \<^verbatim>\<open>hasSubshell\<close> is or-ed into the running result and its
  \<^verbatim>\<open>subshellCommands\<close> are appended; when it has a parse error, the wrapper is kept as
  one invocation.
\<close>

theorem shell_wrapper_unwrap:
  assumes conv: "convertCommand name prefix suffix = Some parsed"
    and shell: "command parsed = ''sh'' \<or> command parsed = ''bash'' \<or> command parsed = ''zsh''"
    and dashc: "args parsed ! 0 = ''-c''"
    and two: "2 \<le> length (args parsed)"
    and inner: "parseCommand depth parse (args parsed ! 1) = Some inner"
  shows "\<exists>out. walkNode (parseCommand depth parse) (Command name prefix suffix) result = Some out \<and>
    (if parseError inner
     then commands out = commands result @ [parsed]
     else commands out = commands result @ commands inner \<and>
          hasSubshell out =
            (hasSubshell result \<or> collectCommandExpansions (Command name prefix suffix) \<noteq> [] \<or>
             hasSubshell inner) \<and>
          subshellCommands out =
            subshellCommands result @ collectCommandExpansions (Command name prefix suffix) @
            subshellCommands inner)"
proof -
  from shell dashc two have "isShellWrapper parsed"
    by (simp add: isShellWrapper_def)
  with conv inner show ?thesis
    by (simp add: Let_def del: collectCommandExpansions.simps)
qed

theorem shell_wrapper_unwrap_witness:
  "\<exists>out. walkNode (parseCommand 1 sampleParse)
      (Command (Some (plainWord ''bash'')) None
         (Some [Word (plainWord ''-c''), Word (plainWord ''ls'')])) emptyWalk = Some out \<and>
     commands out = [\<lparr>command = ''ls'', args = [], envPrefixes = [], raw = ''ls''\<rparr>]"
proof -
  let ?parsed = "\<lparr>command = ''bash'', args = [''-c'', ''ls''], envPrefixes = [],
    raw = ''bash -c ls''\<rparr>"
  let ?inner = "\<lparr>commands = [\<lparr>command = ''ls'', args = [], envPrefixes = [], raw = ''ls''\<rparr>],
    hasSubshell = False, subshellCommands = [], parseError = False\<rparr>"
  have conv: "convertCommand (Some (plainWord ''bash'')) None
      (Some [Word (plainWord ''-c''), Word (plainWord ''ls'')]) = Some ?parsed"
    by (simp add: convertCommand_def plainWord_def)
  have inner: "parseCommand 1 sampleParse (args ?parsed ! 1) = Some ?inner"
    by code_simp
  have shell: "command ?parsed = ''sh'' \<or> command ?parsed = ''bash'' \<or> command ?parsed = ''zsh''"
    and dashc: "args ?parsed ! 0 = ''-c''" and two: "2 \<le> length (args ?parsed)"
    by simp_all
  from shell_wrapper_unwrap [OF conv shell dashc two inner, of emptyWalk]
  obtain out where
    walk: "walkNode (parseCommand 1 sampleParse)
      (Command (Some (plainWord ''bash'')) None
         (Some [Word (plainWord ''-c''), Word (plainWord ''ls'')])) emptyWalk = Some out"
    and cmds: "commands out = commands emptyWalk @ commands ?inner"
    by (auto simp del: walkNode.simps collectCommandExpansions.simps)
  from cmds have "commands out = [\<lparr>command = ''ls'', args = [], envPrefixes = [], raw = ''ls''\<rparr>]"
    by (simp add: emptyWalk_def)
  with walk show ?thesis by blast
qed

text \<open>
  C5, as stated, fails where the first line leaves no command: the heredoc is found in
  the tree, nothing is parsed again, and the result has \<^verbatim>\<open>hasSubshell\<close> unset.
\<close>

theorem heredoc_first_line_counterexample:
  "parseCommand 1
     (\<lambda>s. Some (Script [Command (Some (plainWord ''cat'')) None (Some [Other ''dless'' []])]))
     ''\<newline>cat <<EOF\<newline>hi\<newline>EOF'' =
   Some \<lparr>commands = [], hasSubshell = False, subshellCommands = [], parseError = True\<rparr>"
  by (simp add: trim_def isSpace_def matchCatHeredoc_def astHasHeredoc_def
      hasHeredocRedirect_def commandPart_def firstLine_def)

text \<open>
  C5, amended. When the parse of the rewritten input succeeds and its tree holds a
  heredoc redirect, and the first line of the rewritten input, without the heredoc
  operator and trimmed, is not empty, that shorter text is parsed again. When this parse
  succeeds, the result holds the invocations and substitution commands of its walk, with
  \<^verbatim>\<open>hasSubshell\<close> set and no parse error; when it throws, the result is empty, with
  \<^verbatim>\<open>hasSubshell\<close> and \<^verbatim>\<open>parseError\<close> set.
\<close>

theorem heredoc_first_line_fallback:
  assumes "trim input \<noteq> []"
    and "parse (preprocessCatHeredocs input) = Some ast"
    and "astHasHeredoc ast"
    and "commandPart (preprocessCatHeredocs input) \<noteq> []"
  shows "length (commandPart (preprocessCatHeredocs input)) \<le> length (preprocessCatHeredocs input) \<and>
    parseCommand (Suc depth) parse input =
      (case parse (commandPart (preprocessCatHeredocs input)) of
         None \<Rightarrow>
           Some \<lparr>commands = [], hasSubshell = True, subshellCommands = [], parseError = True\<rparr>
       | Some cmdAst \<Rightarrow>
           (case walkNodes (parseCommand depth parse) (scriptCommands cmdAst) emptyWalk of
              None \<Rightarrow> None
            | Some result \<Rightarrow>
                Some \<lparr>commands = commands result, hasSubshell = True,
                      subshellCommands = subshellCommands result, parseError = False\<rparr>))"
  using assms by (auto simp: Let_def commandPart_length split: option.splits)

theorem heredoc_first_line_fallback_witness:
  "parseCommand (Suc 0) sampleParse ''cat <<EOF'' =
     Some \<lparr>commands = [\<lparr>command = ''cat'', args = [], envPrefixes = [], raw = ''cat''\<rparr>],
           hasSubshell = True, subshellCommands = [], parseError = False\<rparr>"
proof -
  let ?fallback =
    "case sampleParse (commandPart (preprocessCatHeredocs ''cat <<EOF'')) of
       None \<Rightarrow>
         Some \<lparr>commands = [], hasSubshell = True, subshellCommands = [], parseError = True\<rparr>
     | Some cmdAst \<Rightarrow>
         (case walkNodes (parseCommand 0 sampleParse) (scriptCommands cmdAst) emptyWalk of
            None \<Rightarrow> None
          | Some result \<Rightarrow>
              Some \<lparr>commands = commands result, hasSubshell = True,
                    subshellCommands = subshellCommands result, parseError = False\<rparr>)"
  have blank: "trim ''cat <<EOF'' \<noteq> []"
    by code_simp
  have tree: "sampleParse (preprocessCatHeredocs ''cat <<EOF'') =
      Some (Script [Command (Some (plainWord ''cat'')) None (Some [Other ''dless'' []])])"
    by code_simp
  have heredoc: "astHasHeredoc
      (Script [Command (Some (plainWord ''cat'')) None (Some [Other ''dless'' []])])"
    by code_simp
  have nonempty: "commandPart (preprocessCatHeredocs ''cat <<EOF'') \<noteq> []"
    by code_simp
  have "parseCommand (Suc 0) sampleParse ''cat <<EOF'' = ?fallback"
    by (rule heredoc_first_line_fallback [where parse = sampleParse and depth = 0,
          OF blank tree heredoc nonempty, THEN conjunct2])
  also have "?fallback =
     Some \<lparr>commands = [\<lparr>command = ''cat'', args = [], envPrefixes = [], raw = ''cat''\<rparr>],
           hasSubshell = True, subshellCommands = [], parseError = False\<rparr>"
    by code_simp
  finally show ?thesis .
qed

text \<open>
  C6, as stated, fails where the parse throws and the input holds no heredoc operator:
  the result has \<^verbatim>\<open>parseError\<close> set and \<^verbatim>\<open>hasSubshell\<close> unset.
\<close>

theorem parse_failure_counterexample:
  "parseCommand 1 (\<lambda>s. None) ''ls -la'' =
     Some \<lparr>commands = [], hasSubshell = False, subshellCommands = [], parseError = True\<rparr>"
  by (simp add: trim_def isSpace_def matchCatHeredoc_def heredocOperator_def)

text \<open>
  C6, amended. When the parse of the rewritten input throws: if that text does not match
  the heredoc expression, the result has \<^verbatim>\<open>parseError\<close> set, \<^verbatim>\<open>hasSubshell\<close> unset and
  empty lists; if it matches and the first-line fallback fails (nothing is left of the
  first line, or its parse throws), the result has \<^verbatim>\<open>parseError\<close> and \<^verbatim>\<open>hasSubshell\<close> set
  and empty lists.
\<close>

theorem parse_failure_result:
  assumes "trim input \<noteq> []"
    and "parse (preprocessCatHeredocs input) = None"
  shows "(\<not> heredocRegexTest (preprocessCatHeredocs input) \<longrightarrow>
      parseCommand (Suc depth) parse input =
        Some \<lparr>commands = [], hasSubshell = False, subshellCommands = [], parseError = True\<rparr>) \<and>
    (heredocRegexTest (preprocessCatHeredocs input) \<and>
     (commandPart (preprocessCatHeredocs input) = [] \<or>
      parse (commandPart (preprocessCatHeredocs input)) = None) \<longrightarrow>
      parseCommand (Suc depth) parse input =
        Some \<lparr>commands = [], hasSubshell = True, subshellCommands = [], parseError = True\<rparr>)"
  using assms by (auto simp: Let_def)

theorem parse_failure_result_witness:
  "parseCommand 1 (\<lambda>s. None) ''cat <<EOF'' =
     Some \<lparr>commands = [], hasSubshell = True, subshellCommands = [], parseError = True\<rparr> \<and>
   parseCommand 1 (\<lambda>s. None) ''rm x'' =
     Some \<lparr>commands = [], hasSubshell = False, subshellCommands = [], parseError = True\<rparr>"
proof -
  have b1: "trim ''cat <<EOF'' \<noteq> []" and b2: "trim ''rm x'' \<noteq> []"
    by (simp_all add: trim_def isSpace_def)
  have h1: "heredocRegexTest (preprocessCatHeredocs ''cat <<EOF'')"
    by (simp add: matchCatHeredoc_def heredocOperator_def isSpace_def isWordChar_def
        isQuote_def)
  have h2: "\<not> heredocRegexTest (preprocessCatHeredocs ''rm x'')"
    by (simp add: matchCatHeredoc_def heredocOperator_def)
  show ?thesis
    using parse_failure_result [OF b1, of "\<lambda>s. None" 0]
      parse_failure_result [OF b2, of "\<lambda>s. None" 0] h1 h2
    by simp
qed

section \<open>The depth of the recursion\<close>

text \<open>
  The rewrite of the heredoc idiom can lengthen a text: thirteen characters become the
  sixteen of the placeholder. The measure of the recursion is therefore the length of
  the rewritten text.
\<close>

lemma preprocessCatHeredocs_lengthens:
  "preprocessCatHeredocs ''$(cat <<A\<newline>\<newline>A)'' = ''__HEREDOC_TEXT__''"
  by (simp add: matchCatHeredoc_def heredocOperator_def closeAt_def isSpace_def
      isWordChar_def isQuote_def)



section \<open>Invocations\<close>


lemma basename_plain:
  assumes "CHR ''/'' \<notin> set p"
  shows "basename p = p"
proof -
  have "takeWhile (\<lambda>c. c \<noteq> CHR ''/'') (dropWhile (\<lambda>c. c = CHR ''/'') xs) = xs"
    if "CHR ''/'' \<notin> set xs" for xs
    using that by (cases xs) (auto simp: takeWhile_eq_all_conv)
  from this [of "rev p"] assms show ?thesis
    by (simp add: basename_def)
qed



lemma walk_commands_invariant:
  assumes conv: "\<And>name prefix suffix c. convertCommand name prefix suffix = Some c \<Longrightarrow> P c"
  shows "\<forall>t r. recur t = Some r \<longrightarrow> (\<forall>c \<in> set (commands r). P c) \<Longrightarrow>
      walkNode recur node result = Some out \<Longrightarrow>
      \<forall>c \<in> set (commands result). P c \<Longrightarrow> \<forall>c \<in> set (commands out). P c"
    and "\<forall>t r. recur t = Some r \<longrightarrow> (\<forall>c \<in> set (commands r). P c) \<Longrightarrow>
      walkNodes recur nodes result = Some out \<Longrightarrow>
      \<forall>c \<in> set (commands result). P c \<Longrightarrow> \<forall>c \<in> set (commands out). P c"
proof (induction recur node result and recur nodes result
    arbitrary: out and out rule: walkNode_walkNodes.induct)
  case (1 recur name prefix suffix result)
  then show ?case
    by (auto simp: Let_def simp del: collectCommandExpansions.simps
        split: option.splits if_splits dest: conv)
next
  case (3 recur op left right result)
  from "3.prems"(2) obtain mid where
    l: "walkNode recur left result = Some mid" and r: "walkNode recur right mid = Some out"
    by (auto split: option.splits)
  from "3.IH"(1) [OF "3.prems"(1) l "3.prems"(3)] have "\<forall>c \<in> set (commands mid). P c" .
  from "3.IH"(2) [OF l "3.prems"(1) r this] show ?case .
next
  case (5 recur cmds result)
  from "5.prems"(3) have "\<forall>c \<in> set (commands (result\<lparr>hasSubshell := True\<rparr>)). P c" by simp
  from "5.IH" [OF "5.prems"(1) _ this] "5.prems"(2) show ?case by simp
next
  case (10 recur n ns result)
  from "10.prems"(2) obtain mid where
    l: "walkNode recur n result = Some mid" and r: "walkNodes recur ns mid = Some out"
    by (auto split: option.splits)
  from "10.IH"(1) [OF "10.prems"(1) l "10.prems"(3)] have "\<forall>c \<in> set (commands mid). P c" .
  from "10.IH"(2) [OF l "10.prems"(1) r this] show ?case .
qed (auto split: if_splits)

lemma parseCommand_commands_invariant:
  assumes conv: "\<And>name prefix suffix c. convertCommand name prefix suffix = Some c \<Longrightarrow> P c"
  shows "parseCommand depth parse input = Some r \<Longrightarrow> c \<in> set (commands r) \<Longrightarrow> P c"
proof (induction depth arbitrary: input r c)
  case 0
  then show ?case by simp
next
  case (Suc depth)
  have walk: "\<forall>c \<in> set (commands out). P c"
    if "walkNodes (parseCommand depth parse) nodes emptyWalk = Some out" for nodes out
  proof (rule walk_commands_invariant(2) [OF conv _ that])
    show "\<forall>t r. parseCommand depth parse t = Some r \<longrightarrow> (\<forall>c \<in> set (commands r). P c)"
      using Suc.IH by blast
    show "\<forall>c \<in> set (commands emptyWalk). P c"
      by (simp add: emptyWalk_def)
  qed
  from Suc.prems show ?case
    by (auto simp: Let_def split: option.splits if_splits dest!: walk)
qed

lemma convertCommand_shape:
  assumes "convertCommand name prefix suffix = Some c"
  shows "\<exists>w. command c = basename w \<and> raw c = joinSpace (envPrefixes c @ [w] @ args c)"
proof -
  from assms obtain nm where nm: "name = Some nm"
    by (auto simp: convertCommand_def split: option.splits)
  have "command c = basename (wordText nm)"
    using assms nm by (auto simp: convertCommand_def Let_def basename_plain)
  moreover have "raw c = joinSpace (envPrefixes c @ [wordText nm] @ args c)"
    using assms nm by (auto simp: convertCommand_def Let_def)
  ultimately show ?thesis by blast
qed



text \<open>
  C9. For every invocation in a result of \<^verbatim>\<open>parseCommand\<close>, \<^verbatim>\<open>raw\<close> is the environment
  prefixes, the command word as written (the word whose basename is \<^verbatim>\<open>command\<close>) and the
  arguments, joined by single spaces.
\<close>

theorem raw_round_trip:
  assumes "parseCommand depth parse input = Some r"
    and "c \<in> set (commands r)"
  shows "\<exists>w. command c = basename w \<and> raw c = joinSpace (envPrefixes c @ [w] @ args c)"
  by (rule parseCommand_commands_invariant [OF _ assms]) (rule convertCommand_shape)

theorem raw_round_trip_witness:
  "\<exists>w. ''bash'' = basename w \<and> ''bash -c ls'' = joinSpace ([] @ [w] @ [''-c'', ''ls''])"
proof -
  let ?c = "\<lparr>command = ''bash'', args = [''-c'', ''ls''], envPrefixes = [],
    raw = ''bash -c ls''\<rparr>"
  let ?r = "\<lparr>commands = [?c], hasSubshell = False, subshellCommands = [],
    parseError = False\<rparr>"
  have run: "parseCommand 2 (\<lambda>s. if s = ''ls'' then None else sampleParse s) ''bash -c ls'' =
      Some ?r"
    by code_simp
  have mem: "?c \<in> set (commands ?r)"
    by simp
  from raw_round_trip [OF run mem] show ?thesis
    by simp
qed

section \<open>Command substitutions\<close>










section \<open>Occurrences of the idiom are rewritten\<close>
























text \<open>The tenth scenario of the specification, rewritten.\<close>

lemma preprocess_scenario:
  "preprocessCatHeredocs
     (''gh pr create --body '' @ [CHR 0x22] @ ''$(cat <<EOF\<newline>hello\<newline>EOF\<newline>)'' @
      [CHR 0x22]) =
   ''gh pr create --body '' @ [CHR 0x22] @ ''__HEREDOC_TEXT__'' @ [CHR 0x22]"
  by code_simp

text \<open>
  With the tree the grammar gives the rewritten text, the result of the scenario holds
  the one invocation, and neither \<^verbatim>\<open>hasSubshell\<close> nor a substitution command.
\<close>

lemma heredoc_scenario_result:
  "parseCommand 1 sampleParse
     (''gh pr create --body '' @ [CHR 0x22] @ ''$(cat <<EOF\<newline>hello\<newline>EOF\<newline>)'' @
      [CHR 0x22]) =
   Some \<lparr>commands =
           [\<lparr>command = ''gh'', args = [''pr'', ''create'', ''--body'', ''__HEREDOC_TEXT__''],
             envPrefixes = [],
             raw = ''gh pr create --body __HEREDOC_TEXT__''\<rparr>],
         hasSubshell = False, subshellCommands = [], parseError = False\<rparr>"
  by code_simp

section \<open>The rule for rm\<close>

lemma rm_not_listed: "''rm'' \<notin> set defaultAlwaysDeny" "''rm'' \<notin> set defaultAlwaysAllow"
  by (simp_all add: defaultAlwaysDeny_def defaultAlwaysAllow_def)

lemma rm_first_rule: "find (\<lambda>r. ruleCommand r = ''rm'') defaultRules = Some rmRule"
  by (simp add: defaultRules_def plainRule_def pkgRunnerRule_def pkgManagerRule_def rmRule_def)

text \<open>
  C2, as stated, fails on both counts: the built-in configuration holds no global deny
  pattern and the rule for \<^verbatim>\<open>rm\<close> asks on the recursive-force flags, so \<^verbatim>\<open>rm -rf x\<close> is
  asked, not denied; and an \<^verbatim>\<open>rm\<close> of at most three arguments without a recursive flag is
  allowed.
\<close>

theorem default_rm_counterexample:
  "evaluateInvocation (\<lambda>p s. False) sampleSearch DEFAULT_CONFIG ''rm -rf x''
     \<lparr>command = ''rm'', args = [''-rf'', ''x''], envPrefixes = [], raw = ''rm -rf x''\<rparr> = Ask \<and>
   evaluateInvocation (\<lambda>p s. False) sampleSearch DEFAULT_CONFIG ''rm notes.txt''
     \<lparr>command = ''rm'', args = [''notes.txt''], envPrefixes = [], raw = ''rm notes.txt''\<rparr> =
     Allow"
  by code_simp

lemma withGlobalDeny_default: "withGlobalDeny None DEFAULT_CONFIG = DEFAULT_CONFIG"
  by (simp add: withGlobalDeny_def DEFAULT_CONFIG_def)

text \<open>
  C2, amended. Under the rules and lists of the built-in configuration, whatever the
  regular-expression engine, an \<^verbatim>\<open>rm\<close> invocation that no global deny pattern denies is
  decided by its rule: it is asked when the recursive-force expression or the recursive
  expression matches in \<^verbatim>\<open>raw\<close>, allowed when neither matches and it has at most three
  arguments, and asked otherwise. The built-in configuration is the case of no global
  deny pattern.
\<close>

theorem default_rm_decision:
  assumes "command c = ''rm''"
  shows "evaluateInvocation fullmatch search (withGlobalDeny gd DEFAULT_CONFIG) input c =
    (if (case gd of None \<Rightarrow> False | Some ps \<Rightarrow> list_ex (\<lambda>g. search (pattern g) input) ps)
     then Deny
     else if search recursiveForcePattern (raw c) \<or> search recursivePattern (raw c) then Ask
     else if length (args c) \<le> 3 then Allow
     else Ask)"
proof -
  have rule: "evaluateInvocation fullmatch search (withGlobalDeny gd DEFAULT_CONFIG) input c =
      (if (case gd of None \<Rightarrow> False | Some ps \<Rightarrow> list_ex (\<lambda>g. search (pattern g) input) ps)
       then Deny else evaluateRule fullmatch search rmRule c)"
    using assms rm_not_listed rm_first_rule
    by (cases gd) (simp_all add: evaluateInvocation_def DEFAULT_CONFIG_def withGlobalDeny_def)
  show ?thesis
    unfolding rule
    by (simp add: evaluateRule_def rmRule_def matchesSpec_def argsMatching_def noMatch_def)
qed

theorem default_rm_decision_witness:
  "evaluateInvocation (\<lambda>p s. False) sampleSearch DEFAULT_CONFIG ''rm a b c d''
     \<lparr>command = ''rm'', args = [''a'', ''b'', ''c'', ''d''], envPrefixes = [],
      raw = ''rm a b c d''\<rparr> = Ask"
proof -
  let ?c = "\<lparr>command = ''rm'', args = [''a'', ''b'', ''c'', ''d''], envPrefixes = [],
      raw = ''rm a b c d''\<rparr>"
  have "command ?c = ''rm''" by simp
  from default_rm_decision [OF this, of "\<lambda>p s. False" sampleSearch None "''rm a b c d''"]
  show ?thesis by (simp add: withGlobalDeny_default)
qed

end
